theory Spec2Isabelle
  imports Main "HOL-Library.List_Lexorder" "HOL-Library.Multiset" "HOL-Library.Sublist"
begin

section \<open>Strings and numbers of the host language\<close>

text \<open>
  Source strings are modelled as \<^typ>\<open>string\<close>, one \<^typ>\<open>char\<close> per code unit (the
  ASCII range is all the mergers inspect). A source number is an exact integer or
  \<open>NaN\<close>; the model is exact for magnitudes below \<open>2 ^ 53\<close>, where the double
  arithmetic of the source is exact as well.
\<close>

datatype number = NaN | Num int

text \<open>\<open>x !== y\<close> on numbers: \<open>NaN\<close> differs from every number, itself included.\<close>

fun strict_neq :: "number \<Rightarrow> number \<Rightarrow> bool" where
  "strict_neq (Num x) (Num y) = (x \<noteq> y)"
| "strict_neq _ _ = True"

fun num_sub :: "number \<Rightarrow> number \<Rightarrow> number" where
  "num_sub (Num x) (Num y) = Num (x - y)"
| "num_sub _ _ = NaN"

text \<open>\<open>x >= 0\<close> on numbers: false for \<open>NaN\<close>.\<close>

fun num_ge0 :: "number \<Rightarrow> bool" where
  "num_ge0 (Num x) = (0 \<le> x)"
| "num_ge0 NaN = False"

definition is_digit :: "char \<Rightarrow> bool" where
  "is_digit c = (48 \<le> (of_char c :: nat) \<and> (of_char c :: nat) \<le> 57)"

text \<open>White space as \<open>\s\<close>, \<open>trim\<close> and \<open>parseInt\<close> see it (tab, LF, VT, FF, CR, space).\<close>

definition is_space :: "char \<Rightarrow> bool" where
  "is_space c = (c \<in> set [CHR 0x09, CHR 0x0A, CHR 0x0B, CHR 0x0C, CHR 0x0D, CHR '' ''])"

definition digit_val :: "char \<Rightarrow> nat" where
  "digit_val c = of_char c - 48"

definition nat_of_digits :: "string \<Rightarrow> nat" where
  "nat_of_digits ds = foldl (\<lambda>acc c. 10 * acc + digit_val c) 0 ds"

text \<open>
  \<open>parseInt(s, 10)\<close>: leading white space is skipped, one sign is read, then the longest
  run of decimal digits; no digit gives \<open>NaN\<close>, and whatever follows the digits is ignored.
\<close>

definition parseInt :: "string \<Rightarrow> number" where
  "parseInt s =
     (let t = dropWhile is_space s;
          neg = (t \<noteq> [] \<and> hd t = CHR ''-'');
          u = (if t \<noteq> [] \<and> (hd t = CHR ''-'' \<or> hd t = CHR ''+'') then tl t else t);
          ds = takeWhile is_digit u
      in if ds = [] then NaN
         else if neg then Num (- int (nat_of_digits ds)) else Num (int (nat_of_digits ds)))"

text \<open>\<open>s.split(c)\<close> for a one-character separator: the empty string gives one empty piece.\<close>

fun split_on :: "char \<Rightarrow> string \<Rightarrow> string list" where
  "split_on c [] = [[]]"
| "split_on c (x # xs) =
     (if x = c then [] # split_on c xs
      else (case split_on c xs of [] \<Rightarrow> [[x]] | p # ps \<Rightarrow> (x # p) # ps))"

section \<open>Version comparator\<close>

text \<open>\<open>a[i] ?? '0'\<close>: an index past the end reads \<open>undefined\<close>, replaced by \<open>'0'\<close>.\<close>

definition part_or_zero :: "string list \<Rightarrow> nat \<Rightarrow> string" where
  "part_or_zero a i = (if i < length a then a ! i else ''0'')"

text \<open>The body of the \<open>for\<close> loop of \<open>compareVersionParts\<close>, over the indices still to visit.\<close>

fun compareVersionParts_loop :: "string list \<Rightarrow> string list \<Rightarrow> nat list \<Rightarrow> number" where
  "compareVersionParts_loop a b [] = Num 0"
| "compareVersionParts_loop a b (i # is) =
     (let aNum = parseInt (part_or_zero a i);
          bNum = parseInt (part_or_zero b i)
      in if strict_neq aNum bNum then num_sub aNum bNum
         else compareVersionParts_loop a b is)"

definition compareVersionParts :: "string list \<Rightarrow> string list \<Rightarrow> number" where
  "compareVersionParts a b = compareVersionParts_loop a b [0..<max (length a) (length b)]"






section \<open>Range compatibility\<close>

record range_result =
  compatible :: bool
  resolved :: string

text \<open>\<open>xs[i]\<close> as a read: an index past the end gives \<open>undefined\<close>, here \<open>None\<close>.\<close>

definition at_index :: "'a list \<Rightarrow> nat \<Rightarrow> 'a option" where
  "at_index xs i = (if i < length xs then Some (xs ! i) else None)"

definition startsWith_char :: "char \<Rightarrow> string \<Rightarrow> bool" where
  "startsWith_char c s = (case s of [] \<Rightarrow> False | x # _ \<Rightarrow> x = c)"

definition areRangesCompatible :: "string \<Rightarrow> string \<Rightarrow> range_result" where
  "areRangesCompatible existing requested =
     (if existing = requested then \<lparr>compatible = True, resolved = existing\<rparr>
      else if startsWith_char CHR ''^'' existing \<and> startsWith_char CHR ''^'' requested then
        (let eParts = split_on CHR ''.'' (drop 1 existing);
             rParts = split_on CHR ''.'' (drop 1 requested)
         in if at_index eParts 0 \<noteq> at_index rParts 0
            then \<lparr>compatible = False, resolved = existing\<rparr>
            else \<lparr>compatible = True,
                  resolved = (if num_ge0 (compareVersionParts eParts rParts)
                              then existing else requested)\<rparr>)
      else if startsWith_char CHR ''~'' existing \<and> startsWith_char CHR ''~'' requested then
        (let eParts = split_on CHR ''.'' (drop 1 existing);
             rParts = split_on CHR ''.'' (drop 1 requested)
         in if at_index eParts 0 \<noteq> at_index rParts 0 \<or> at_index eParts 1 \<noteq> at_index rParts 1
            then \<lparr>compatible = False, resolved = existing\<rparr>
            else \<lparr>compatible = True,
                  resolved = (if num_ge0 (compareVersionParts eParts rParts)
                              then existing else requested)\<rparr>)
      else \<lparr>compatible = False, resolved = existing\<rparr>)"

section \<open>Files, errors and library functions\<close>

text \<open>
  The file system is a map from paths to contents. \<open>fs.existsSync p\<close> is \<open>p \<in> dom files\<close>,
  \<open>fs.readFileSync\<close> of an absent path throws, \<open>fs.writeFileSync p c\<close> is
  \<open>files(p \<mapsto> c)\<close>. A function with effects returns how it ended together with the
  files it left behind, so that whatever was written before an exception stays visible.
\<close>

type_synonym files = "string \<rightharpoonup> string"

datatype error =
    ENOENT string
  | SyntaxError
  | TypeError
  | Error string
  | InvalidVersionError string

datatype outcome = Returned | Threw error

definition readFileSync :: "files \<Rightarrow> string \<Rightarrow> error + string" where
  "readFileSync files p = (case files p of None \<Rightarrow> Inl (ENOENT p) | Some c \<Rightarrow> Inr c)"

definition writeFileSync :: "files \<Rightarrow> string \<Rightarrow> string \<Rightarrow> files" where
  "writeFileSync files p c = files(p \<mapsto> c)"

text \<open>A value of type \<open>unknown\<close>, as the YAML and JSON parsers of the source produce it.\<close>

datatype jsval =
    JNull
  | JBool bool
  | JNum int
  | JStr string
  | JArr "jsval list"
  | JObj "(string \<times> jsval) list"

fun truthy :: "jsval \<Rightarrow> bool" where
  "truthy JNull = False"
| "truthy (JBool b) = b"
| "truthy (JNum n) = (n \<noteq> 0)"
| "truthy (JStr s) = (s \<noteq> [])"
| "truthy (JArr xs) = True"
| "truthy (JObj kvs) = True"

text \<open>An object (\<open>Record<string, T>\<close>) is its list of entries in insertion order, keys distinct:
  \<open>o[k]\<close> is \<open>map_of o k\<close>, and \<open>o[k] = v\<close> overwrites in place or appends.\<close>

fun set_entry :: "string \<Rightarrow> 'v \<Rightarrow> (string \<times> 'v) list \<Rightarrow> (string \<times> 'v) list" where
  "set_entry k v [] = [(k, v)]"
| "set_entry k v (p # ps) = (if fst p = k then (k, v) # ps else p # set_entry k v ps)"

record PackageJson =
  dependencies :: "(string \<times> string) list option"
  devDependencies :: "(string \<times> string) list option"
  package_rest :: "(string \<times> jsval) list"

record DockerComposeFile =
  compose_version :: "string option"
  services :: "(string \<times> jsval) list option"
  compose_rest :: "(string \<times> jsval) list"

record LanggraphJson =
  graphs :: "(string \<times> string) list option"
  langgraph_rest :: "(string \<times> jsval) list"

text \<open>
  The library functions the mergers call and this repository does not define: the JSON
  and YAML parsers and printers (a parser returns a document of the interface the caller
  casts it to, or throws), and the locale-aware string comparison used for sorting.
\<close>

record platform =
  JSON_parse_package :: "string \<Rightarrow> error + PackageJson"
  JSON_stringify_package :: "PackageJson \<Rightarrow> string"
  JSON_parse_langgraph :: "string \<Rightarrow> error + LanggraphJson"
  JSON_stringify_langgraph :: "LanggraphJson \<Rightarrow> string"
  yaml_parse :: "string \<Rightarrow> error + DockerComposeFile option"
  yaml_stringify :: "DockerComposeFile \<Rightarrow> string"
  localeCompare :: "string \<Rightarrow> string \<Rightarrow> int"

text \<open>\<open>entries.sort(([a], [b]) => a.localeCompare(b))\<close>: a stable sort by key.\<close>

fun insert_sorted :: "(string \<Rightarrow> string \<Rightarrow> int) \<Rightarrow> string \<times> 'v \<Rightarrow> (string \<times> 'v) list \<Rightarrow> (string \<times> 'v) list" where
  "insert_sorted cmp x [] = [x]"
| "insert_sorted cmp x (y # ys) =
     (if cmp (fst x) (fst y) \<le> 0 then x # y # ys else y # insert_sorted cmp x ys)"

definition sort_entries :: "(string \<Rightarrow> string \<Rightarrow> int) \<Rightarrow> (string \<times> 'v) list \<Rightarrow> (string \<times> 'v) list" where
  "sort_entries cmp xs = foldr (insert_sorted cmp) xs []"

section \<open>Package manifest merger\<close>

definition conflict_message :: "string \<Rightarrow> string \<Rightarrow> string \<Rightarrow> string" where
  "conflict_message name existing wanted =
     ''Dependency conflict: '' @ name @ '' is already at '' @ existing @ '', skill wants '' @ wanted"

text \<open>\<open>pkg.dependencies[name] ?? pkg.devDependencies?.[name]\<close>\<close>

definition existing_range :: "(string \<times> string) list \<Rightarrow> (string \<times> string) list option \<Rightarrow> string \<Rightarrow> string option" where
  "existing_range deps dev name =
     (case map_of deps name of
        Some v \<Rightarrow> Some v
      | None \<Rightarrow> (case dev of None \<Rightarrow> None | Some dd \<Rightarrow> map_of dd name))"

text \<open>The loop over \<open>Object.entries(newDeps)\<close>; a \<open>throw\<close> ends it.\<close>

fun merge_dependency_entries ::
  "(string \<times> string) list \<Rightarrow> (string \<times> string) list option \<Rightarrow> (string \<times> string) list
     \<Rightarrow> error + (string \<times> string) list" where
  "merge_dependency_entries deps dev [] = Inr deps"
| "merge_dependency_entries deps dev ((name, wanted) # rest) =
     (case existing_range deps dev name of
        None \<Rightarrow> merge_dependency_entries (set_entry name wanted deps) dev rest
      | Some existing \<Rightarrow>
          if existing \<noteq> [] \<and> existing \<noteq> wanted then
            (let result = areRangesCompatible existing wanted
             in if \<not> compatible result
                then Inl (Error (conflict_message name existing wanted))
                else merge_dependency_entries (set_entry name (resolved result) deps) dev rest)
          else merge_dependency_entries (set_entry name wanted deps) dev rest)"

definition mergeNpmDependencies ::
  "platform \<Rightarrow> string \<Rightarrow> (string \<times> string) list \<Rightarrow> files \<Rightarrow> outcome \<times> files" where
  "mergeNpmDependencies P packageJsonPath newDeps files =
     (case readFileSync files packageJsonPath of
        Inl e \<Rightarrow> (Threw e, files)
      | Inr content \<Rightarrow>
          (case JSON_parse_package P content of
             Inl e \<Rightarrow> (Threw e, files)
           | Inr pkg \<Rightarrow>
               (let deps = (case dependencies pkg of None \<Rightarrow> [] | Some d \<Rightarrow> d)
                in case merge_dependency_entries deps (devDependencies pkg) newDeps of
                     Inl e \<Rightarrow> (Threw e, files)
                   | Inr merged \<Rightarrow>
                       (let pkg' = pkg\<lparr>dependencies := Some (sort_entries (localeCompare P) merged),
                                       devDependencies :=
                                         map_option (sort_entries (localeCompare P)) (devDependencies pkg)\<rparr>
                        in (Returned,
                            writeFileSync files packageJsonPath
                              (JSON_stringify_package P pkg' @ [CHR 0x0A]))))))"


section \<open>Environment file merger\<close>

definition is_alpha :: "char \<Rightarrow> bool" where
  "is_alpha c = ((65 \<le> (of_char c :: nat) \<and> (of_char c :: nat) \<le> 90)
               \<or> (97 \<le> (of_char c :: nat) \<and> (of_char c :: nat) \<le> 122))"

definition is_key_start :: "char \<Rightarrow> bool" where
  "is_key_start c = (is_alpha c \<or> c = CHR ''_'')"

definition is_key_char :: "char \<Rightarrow> bool" where
  "is_key_char c = (is_alpha c \<or> is_digit c \<or> c = CHR ''_'')"

text \<open>\<open>line.match(/^([A-Za-z_][A-Za-z0-9_]*)=/)\<close>: the key of the line, when it has one.\<close>

definition env_line_key :: "string \<Rightarrow> string option" where
  "env_line_key line =
     (case line of
        [] \<Rightarrow> None
      | c # cs \<Rightarrow>
          if is_key_start c then
            (case dropWhile is_key_char cs of
               [] \<Rightarrow> None
             | d # _ \<Rightarrow> if d = CHR ''='' then Some (c # takeWhile is_key_char cs) else None)
          else None)"

definition existingVars :: "string \<Rightarrow> string set" where
  "existingVars content = set (List.map_filter env_line_key (split_on (CHR 0x0A) content))"

definition endsWith_char :: "char \<Rightarrow> string \<Rightarrow> bool" where
  "endsWith_char c s = (s \<noteq> [] \<and> last s = c)"

text \<open>\<open>if (content && !content.endsWith('\n')) content += '\n'\<close>\<close>

definition terminate_line :: "string \<Rightarrow> string" where
  "terminate_line content =
     (if content \<noteq> [] \<and> \<not> endsWith_char (CHR 0x0A) content then content @ [CHR 0x0A] else content)"

definition added_header :: string where
  "added_header = [CHR 0x0A] @ ''# Added by skill'' @ [CHR 0x0A]"

definition mergeEnvAdditions :: "string \<Rightarrow> string list \<Rightarrow> files \<Rightarrow> outcome \<times> files" where
  "mergeEnvAdditions envExamplePath additions files =
     (let content = (case files envExamplePath of None \<Rightarrow> [] | Some c \<Rightarrow> c);
          newVars = filter (\<lambda>v. v \<notin> existingVars content) additions
      in if newVars = [] then (Returned, files)
         else (Returned,
               writeFileSync files envExamplePath
                 (terminate_line content @ added_header
                    @ concat (map (\<lambda>v. v @ ''='' @ [CHR 0x0A]) newVars))))"

section \<open>Service manifest merger\<close>

function show_nat :: "nat \<Rightarrow> string" where
  "show_nat n = (if n < 10 then [char_of (48 + n)]
                 else show_nat (n div 10) @ [char_of (48 + n mod 10)])"
  by pat_completeness auto
termination
  by (relation "measure id") auto

declare show_nat.simps [simp del]

definition join_with :: "string \<Rightarrow> string list \<Rightarrow> string" where
  "join_with sep xs = (case xs of [] \<Rightarrow> [] | y # ys \<Rightarrow> y @ concat (map (\<lambda>z. sep @ z) ys))"

text \<open>
  \<open>String(v)\<close>: an array is its elements joined by commas, \<open>null\<close> elements printing as
  nothing; any object prints as \<open>[object Object]\<close>. (A YAML number that is not an integer
  prints without a colon as well, which is all the port check looks for.)
\<close>

fun to_String :: "jsval \<Rightarrow> string" where
  "to_String JNull = ''null''"
| "to_String (JBool b) = (if b then ''true'' else ''false'')"
| "to_String (JNum n) = (if n < 0 then ''-'' @ show_nat (nat (- n)) else show_nat (nat n))"
| "to_String (JStr s) = s"
| "to_String (JArr xs) = join_with '','' (map (\<lambda>x. if x = JNull then [] else to_String x) xs)"
| "to_String (JObj kvs) = ''[object Object]''"

definition extractHostPort :: "string \<Rightarrow> string option" where
  "extractHostPort portMapping =
     (let parts = split_on CHR '':'' portMapping
      in if 2 \<le> length parts then Some (parts ! 0) else None)"

text \<open>Reading \<open>.ports\<close> of a service definition: \<open>null\<close> has no properties and throws;
  only an object can hold the key.\<close>

fun ports_of :: "jsval \<Rightarrow> error + jsval option" where
  "ports_of JNull = Inl TypeError"
| "ports_of (JObj kvs) = Inr (map_of kvs ''ports'')"
| "ports_of _ = Inr None"

text \<open>The inner loop over the ports of an existing service.\<close>

fun claim_ports :: "string set \<Rightarrow> jsval list \<Rightarrow> string set" where
  "claim_ports used [] = used"
| "claim_ports used (p # ps) =
     (case extractHostPort (to_String p) of
        None \<Rightarrow> claim_ports used ps
      | Some host \<Rightarrow> if host \<noteq> [] then claim_ports (insert host used) ps
                     else claim_ports used ps)"

text \<open>The loop collecting the host ports of the existing services.\<close>

fun collect_used_ports :: "string set \<Rightarrow> (string \<times> jsval) list \<Rightarrow> error + string set" where
  "collect_used_ports used [] = Inr used"
| "collect_used_ports used ((name, svc) # rest) =
     (case ports_of svc of
        Inl e \<Rightarrow> Inl e
      | Inr (Some (JArr ps)) \<Rightarrow> collect_used_ports (claim_ports used ps) rest
      | Inr _ \<Rightarrow> collect_used_ports used rest)"

definition collision_message :: "string \<Rightarrow> string \<Rightarrow> string" where
  "collision_message host name =
     ''Port collision: host port '' @ host @ '' from service '' @ [CHR 0x22] @ name @ [CHR 0x22]
       @ '' is already in use''"

text \<open>The inner loop over the ports of a service being added.\<close>

fun check_ports :: "string \<Rightarrow> string set \<Rightarrow> jsval list \<Rightarrow> error + string set" where
  "check_ports name used [] = Inr used"
| "check_ports name used (p # ps) =
     (case extractHostPort (to_String p) of
        None \<Rightarrow> check_ports name used ps
      | Some host \<Rightarrow>
          if host \<noteq> [] \<and> host \<in> used then Inl (Error (collision_message host name))
          else if host \<noteq> [] then check_ports name (insert host used) ps
          else check_ports name used ps)"

text \<open>\<open>if (compose.services[name]) continue\<close>: an entry counts as existing when its value
  is truthy.\<close>

definition has_truthy :: "(string \<times> jsval) list \<Rightarrow> string \<Rightarrow> bool" where
  "has_truthy entries name = (case map_of entries name of None \<Rightarrow> False | Some v \<Rightarrow> truthy v)"

text \<open>The loop over \<open>Object.entries(services)\<close>.\<close>

fun add_services ::
  "(string \<times> jsval) list \<Rightarrow> string set \<Rightarrow> (string \<times> jsval) list \<Rightarrow> error + (string \<times> jsval) list" where
  "add_services existing used [] = Inr existing"
| "add_services existing used ((name, definition) # rest) =
     (if has_truthy existing name then add_services existing used rest
      else (case ports_of definition of
              Inl e \<Rightarrow> Inl e
            | Inr (Some (JArr ps)) \<Rightarrow>
                (case check_ports name used ps of
                   Inl e \<Rightarrow> Inl e
                 | Inr used' \<Rightarrow> add_services (set_entry name definition existing) used' rest)
            | Inr _ \<Rightarrow> add_services (set_entry name definition existing) used rest))"

text \<open>Both loops on the parsed document: the services to serialise, or the exception.\<close>

definition merge_services ::
  "(string \<times> jsval) list \<Rightarrow> (string \<times> jsval) list \<Rightarrow> error + (string \<times> jsval) list" where
  "merge_services existing newServices =
     (case collect_used_ports {} existing of
        Inl e \<Rightarrow> Inl e
      | Inr used \<Rightarrow> add_services existing used newServices)"

definition load_compose :: "platform \<Rightarrow> string \<Rightarrow> files \<Rightarrow> error + DockerComposeFile" where
  "load_compose P composePath files =
     (case files composePath of
        None \<Rightarrow> Inr \<lparr>compose_version = Some ''3'', services = None, compose_rest = []\<rparr>
      | Some content \<Rightarrow>
          (case yaml_parse P content of
             Inl e \<Rightarrow> Inl e
           | Inr None \<Rightarrow> Inr \<lparr>compose_version = None, services = None, compose_rest = []\<rparr>
           | Inr (Some doc) \<Rightarrow> Inr doc))"

definition mergeDockerComposeServices ::
  "platform \<Rightarrow> string \<Rightarrow> (string \<times> jsval) list \<Rightarrow> files \<Rightarrow> outcome \<times> files" where
  "mergeDockerComposeServices P composePath newServices files =
     (case load_compose P composePath files of
        Inl e \<Rightarrow> (Threw e, files)
      | Inr compose \<Rightarrow>
          (case merge_services (case services compose of None \<Rightarrow> [] | Some s \<Rightarrow> s) newServices of
             Inl e \<Rightarrow> (Threw e, files)
           | Inr merged \<Rightarrow>
               (Returned,
                writeFileSync files composePath
                  (yaml_stringify P (compose\<lparr>services := Some merged\<rparr>)))))"

section \<open>Endpoint registry merger\<close>





section \<open>Python dependency mergers\<close>

definition is_pep_name_char :: "char \<Rightarrow> bool" where
  "is_pep_name_char c = (is_alpha c \<or> is_digit c \<or> c = CHR ''_'' \<or> c = CHR ''-'')"

definition toLowerCase :: "string \<Rightarrow> string" where
  "toLowerCase s =
     map (\<lambda>c. if 65 \<le> (of_char c :: nat) \<and> (of_char c :: nat) \<le> 90
              then char_of ((of_char c :: nat) + 32) else c) s"

text \<open>\<open>dep.match(/^([a-zA-Z0-9_-]+)/)\<close>, lower-cased; the whole string when nothing matches.\<close>

definition parsePepPackageName :: "string \<Rightarrow> string" where
  "parsePepPackageName dep =
     (let m = takeWhile is_pep_name_char dep
      in if m \<noteq> [] then toLowerCase m else toLowerCase dep)"

definition is_version_char :: "char \<Rightarrow> bool" where
  "is_version_char c = (is_digit c \<or> c = CHR ''.'')"

text \<open>
  \<open>s.match(/>=?\s*([0-9.]+)/)\<close>: the captured group of the leftmost match. At a \<open>>\<close> the
  optional \<open>=\<close> and the white space are skipped; giving either back cannot help, since the
  next character must be a digit or a dot.
\<close>

fun lower_bound_match :: "string \<Rightarrow> string option" where
  "lower_bound_match [] = None"
| "lower_bound_match (c # r) =
     (if c = CHR ''>'' then
        (let r1 = (if startsWith_char CHR ''='' r then drop 1 r else r);
             cap = takeWhile is_version_char (dropWhile is_space r1)
         in if cap \<noteq> [] then Some cap else lower_bound_match r)
      else lower_bound_match r)"

text \<open>\<open>parts.map(Number).map(String)\<close> on pieces made of digits: the empty piece is 0.\<close>

definition resolveDepConflict :: "string \<Rightarrow> string \<Rightarrow> string" where
  "resolveDepConflict existing requested =
     (case lower_bound_match existing of
        None \<Rightarrow> existing
      | Some existingVersion \<Rightarrow>
          (case lower_bound_match requested of
             None \<Rightarrow> existing
           | Some requestedVersion \<Rightarrow>
               (let eParts = map nat_of_digits (split_on CHR ''.'' existingVersion);
                    rParts = map nat_of_digits (split_on CHR ''.'' requestedVersion);
                    cmp = compareVersionParts (map show_nat eParts) (map show_nat rParts)
                in if num_ge0 cmp then existing else requested)))"

fun strip_prefix :: "string \<Rightarrow> string \<Rightarrow> string option" where
  "strip_prefix [] s = Some s"
| "strip_prefix (p # ps) [] = None"
| "strip_prefix (p # ps) (c # cs) = (if p = c then strip_prefix ps cs else None)"

text \<open>The first occurrence of a literal: what precedes it and what follows it.\<close>

fun find_literal :: "string \<Rightarrow> string \<Rightarrow> string \<Rightarrow> (string \<times> string) option" where
  "find_literal lit pre [] =
     (case strip_prefix lit [] of Some rest \<Rightarrow> Some (rev pre, rest) | None \<Rightarrow> None)"
| "find_literal lit pre (c # cs) =
     (case strip_prefix lit (c # cs) of
        Some rest \<Rightarrow> Some (rev pre, rest)
      | None \<Rightarrow> find_literal lit (c # pre) cs)"

text \<open>
  \<open>/dependencies\s*=\s*\[([\s\S]*?)\]/\<close> anchored at the head of the string: the captured
  group (everything up to the first closing bracket) and what follows the match.
\<close>

definition deps_array_here :: "string \<Rightarrow> (string \<times> string) option" where
  "deps_array_here s =
     (case strip_prefix ''dependencies'' s of
        None \<Rightarrow> None
      | Some r0 \<Rightarrow>
          (case dropWhile is_space r0 of
             [] \<Rightarrow> None
           | e # r1 \<Rightarrow>
               if e \<noteq> CHR ''='' then None
               else (case dropWhile is_space r1 of
                       [] \<Rightarrow> None
                     | b # r2 \<Rightarrow>
                         if b \<noteq> CHR ''['' then None
                         else if CHR '']'' \<in> set r2
                         then Some (takeWhile (\<lambda>c. c \<noteq> CHR '']'') r2,
                                    drop 1 (dropWhile (\<lambda>c. c \<noteq> CHR '']'') r2))
                         else None)))"

text \<open>The leftmost match of that pattern: (text before, matched text, captured group, text after).\<close>

fun find_deps_array :: "string \<Rightarrow> string \<Rightarrow> (string \<times> string \<times> string \<times> string) option" where
  "find_deps_array pre [] = None"
| "find_deps_array pre (c # cs) =
     (case deps_array_here (c # cs) of
        Some (cap, rest) \<Rightarrow>
          Some (rev pre, take (length (c # cs) - length rest) (c # cs), cap, rest)
      | None \<Rightarrow> find_deps_array (c # pre) cs)"

text \<open>
  \<open>content.match(/\[project\]\s*[\s\S]*?dependencies\s*=\s*\[([\s\S]*?)\]/)\<close>: the lazy
  filler makes the match start at the first \<open>[project]\<close> and reach the first array
  after it.
\<close>

definition depsMatch :: "string \<Rightarrow> string option" where
  "depsMatch content =
     (case find_literal ''[project]'' [] content of
        None \<Rightarrow> None
      | Some (front, rest) \<Rightarrow>
          (case find_deps_array [] rest of
             None \<Rightarrow> None
           | Some (pre, matched, cap, back) \<Rightarrow> Some cap))"

definition trim :: "string \<Rightarrow> string" where
  "trim s = rev (dropWhile is_space (rev (dropWhile is_space s)))"

definition is_quote :: "char \<Rightarrow> bool" where
  "is_quote c = (c = CHR 0x22 \<or> c = CHR 0x27)"

text \<open>\<open>s.replace(/^["']|["'],?$/g, '')\<close>: one leading quote, and one trailing quote with
  the comma that may follow it.\<close>

definition strip_quotes :: "string \<Rightarrow> string" where
  "strip_quotes s =
     (let s1 = (case s of [] \<Rightarrow> [] | c # r \<Rightarrow> if is_quote c then r else s);
          n = length s1
      in if 2 \<le> n \<and> is_quote (s1 ! (n - 2)) \<and> s1 ! (n - 1) = CHR '','' then take (n - 2) s1
         else if 1 \<le> n \<and> is_quote (s1 ! (n - 1)) then take (n - 1) s1
         else s1)"

definition existingDeps :: "string \<Rightarrow> string list" where
  "existingDeps depsBlock =
     filter (\<lambda>t. t \<noteq> [] \<and> \<not> startsWith_char CHR ''#'' t)
       (map (\<lambda>line. strip_quotes (trim line)) (split_on (CHR 0x0A) depsBlock))"

text \<open>The map of dependency strings by package name (a \<open>Map\<close> keeps insertion order).\<close>

fun index_deps :: "(string \<times> string) list \<Rightarrow> string list \<Rightarrow> (string \<times> string) list" where
  "index_deps depMap [] = depMap"
| "index_deps depMap (dep # rest) = index_deps (set_entry (parsePepPackageName dep) dep depMap) rest"

fun merge_new_deps :: "(string \<times> string) list \<Rightarrow> string list \<Rightarrow> (string \<times> string) list" where
  "merge_new_deps depMap [] = depMap"
| "merge_new_deps depMap (dep # rest) =
     (let name = parsePepPackageName dep
      in case map_of depMap name of
           None \<Rightarrow> merge_new_deps (set_entry name dep depMap) rest
         | Some existing \<Rightarrow>
             if existing \<noteq> [] \<and> existing \<noteq> dep
             then merge_new_deps (set_entry name (resolveDepConflict existing dep) depMap) rest
             else if existing = [] then merge_new_deps (set_entry name dep depMap) rest
             else merge_new_deps depMap rest)"

text \<open>The replacement patterns of \<open>String.prototype.replace\<close> for a pattern without groups.\<close>

fun expand_replacement :: "string \<Rightarrow> string \<Rightarrow> string \<Rightarrow> string \<Rightarrow> string" where
  "expand_replacement matched front back [] = []"
| "expand_replacement matched front back [c] = [c]"
| "expand_replacement matched front back (c # d # r) =
     (if c \<noteq> CHR ''$'' then c # expand_replacement matched front back (d # r)
      else if d = CHR ''$'' then CHR ''$'' # expand_replacement matched front back r
      else if d = CHR ''&'' then matched @ expand_replacement matched front back r
      else if d = CHR 0x60 then front @ expand_replacement matched front back r
      else if d = CHR 0x27 then back @ expand_replacement matched front back r
      else c # expand_replacement matched front back (d # r))"

definition format_deps :: "string list \<Rightarrow> string" where
  "format_deps sortedDeps =
     join_with [CHR 0x0A] (map (\<lambda>d. ''    '' @ [CHR 0x22] @ d @ [CHR 0x22] @ '','') sortedDeps)"

definition sorted_dep_values :: "(string \<Rightarrow> string \<Rightarrow> int) \<Rightarrow> (string \<times> string) list \<Rightarrow> string list" where
  "sorted_dep_values cmp depMap =
     map snd (sort_entries cmp (map (\<lambda>d. (parsePepPackageName d, d)) (map snd depMap)))"

definition mergePyprojectDependencies ::
  "platform \<Rightarrow> string \<Rightarrow> string list \<Rightarrow> files \<Rightarrow> outcome \<times> files" where
  "mergePyprojectDependencies P pyprojectPath newDeps files =
     (case readFileSync files pyprojectPath of
        Inl e \<Rightarrow> (Threw e, files)
      | Inr content \<Rightarrow>
          (let found = depsMatch content;
               existing = (case found of None \<Rightarrow> [] | Some depsBlock \<Rightarrow> existingDeps depsBlock);
               depMap = merge_new_deps (index_deps [] existing) newDeps;
               depsStr = format_deps (sorted_dep_values (localeCompare P) depMap);
               newContent =
                 (case found of
                    Some depsBlock \<Rightarrow>
                      (case find_deps_array [] content of
                         None \<Rightarrow> content
                       | Some (front, matched, cap, back) \<Rightarrow>
                           front
                             @ expand_replacement matched front back
                                 (''dependencies = ['' @ [CHR 0x0A] @ depsStr @ [CHR 0x0A] @ '']'')
                             @ back)
                  | None \<Rightarrow>
                      (case find_literal ''[project]'' [] content of
                         None \<Rightarrow> content
                       | Some (front, back) \<Rightarrow>
                           front
                             @ expand_replacement ''[project]'' front back
                                 (''[project]'' @ [CHR 0x0A] @ ''dependencies = ['' @ [CHR 0x0A]
                                    @ depsStr @ [CHR 0x0A] @ '']'')
                             @ back))
           in (Returned, writeFileSync files pyprojectPath newContent)))"




section \<open>Migration runner\<close>






text \<open>A directory entry: its name, and whether it is a directory.\<close>

datatype dirent = Dirent string bool



record exec_call =
  exec_file :: string
  exec_args :: "string list"
  exec_cwd :: string
  exec_timeout :: nat

text \<open>
  The operating system as the runner sees it, over a state \<open>'w\<close> that a migration may
  change: file tests, directory listing, running a subprocess to its end (\<open>Some message\<close>
  when \<open>execFileSync\<close> throws, a timeout included), and the path functions.
\<close>

record 'w host =
  existsSync :: "'w \<Rightarrow> string \<Rightarrow> bool"
  readdirSync :: "'w \<Rightarrow> string \<Rightarrow> error + dirent list"
  execFileSync :: "'w \<Rightarrow> exec_call \<Rightarrow> string option \<times> 'w"
  path_join :: "string list \<Rightarrow> string"
  path_resolve :: "string list \<Rightarrow> string"


record MigrationResult =
  version :: string
  success :: bool
  error :: "string option"














section \<open>Sample inputs and readings used in the statements\<close>

text \<open>A key as the environment-file pattern accepts it: a letter or underscore, then
  letters, digits and underscores.\<close>

definition is_identifier :: "string \<Rightarrow> bool" where
  "is_identifier k = (case k of [] \<Rightarrow> False | c # cs \<Rightarrow> is_key_start c \<and> list_all is_key_char cs)"

definition no_files :: files where
  "no_files = Map.empty"

text \<open>An environment file that defines \<open>API_KEY=secret\<close>.\<close>

definition api_key_files :: files where
  "api_key_files = no_files(''.env.example'' \<mapsto> ''API_KEY=secret'' @ [CHR 0x0A])"

text \<open>The content a merger starts from: the file's text, or the empty string when the file
  does not exist.\<close>

definition current_content :: "files \<Rightarrow> string \<Rightarrow> string" where
  "current_content files p = (case files p of None \<Rightarrow> [] | Some c \<Rightarrow> c)"

text \<open>\<open>pkg.dependencies || {}\<close>\<close>

definition declared_dependencies :: "PackageJson \<Rightarrow> (string \<times> string) list" where
  "declared_dependencies pkg = (case dependencies pkg of None \<Rightarrow> [] | Some d \<Rightarrow> d)"

text \<open>What one addition does, given the range found for its name: it is refused, or a
  range is written under the name in \<open>dependencies\<close>.\<close>

definition blocked :: "string option \<Rightarrow> string \<Rightarrow> bool" where
  "blocked found wanted =
     (case found of
        None \<Rightarrow> False
      | Some e \<Rightarrow> e \<noteq> [] \<and> e \<noteq> wanted \<and> \<not> compatible (areRangesCompatible e wanted))"

definition written_range :: "string option \<Rightarrow> string \<Rightarrow> string" where
  "written_range found wanted =
     (case found of
        None \<Rightarrow> wanted
      | Some e \<Rightarrow> if e \<noteq> [] \<and> e \<noteq> wanted then resolved (areRangesCompatible e wanted) else wanted)"







text \<open>A package manifest as a JSON object has it: no key twice in a section.\<close>

definition distinct_keys :: "(string \<times> 'v) list \<Rightarrow> bool" where
  "distinct_keys entries = distinct (map fst entries)"

definition well_formed_package :: "PackageJson \<Rightarrow> bool" where
  "well_formed_package pkg =
     (distinct_keys (declared_dependencies pkg)
      \<and> (case devDependencies pkg of None \<Rightarrow> True | Some dev \<Rightarrow> distinct_keys dev))"

text \<open>The document \<open>mergeNpmDependencies\<close> serialises once the loop has produced \<open>merged\<close>.\<close>

definition written_package :: "platform \<Rightarrow> PackageJson \<Rightarrow> (string \<times> string) list \<Rightarrow> PackageJson" where
  "written_package P pkg merged =
     pkg\<lparr>dependencies := Some (sort_entries (localeCompare P) merged),
         devDependencies := map_option (sort_entries (localeCompare P)) (devDependencies pkg)\<rparr>"

text \<open>
  Stand-ins for the library in the worked examples: a comparison of strings by their code
  units, printers that list the entries of a document, and parsers that read every text
  as one fixed sample document.
\<close>

definition ordinal_compare :: "string \<Rightarrow> string \<Rightarrow> int" where
  "ordinal_compare a b =
     (if a = b then 0
      else if (map of_char a :: nat list) < map of_char b then - 1 else 1)"

definition render_entries :: "(string \<times> string) list \<Rightarrow> string" where
  "render_entries entries = concat (map (\<lambda>kv. fst kv @ ''='' @ snd kv @ '';'') entries)"

definition render_package :: "PackageJson \<Rightarrow> string" where
  "render_package pkg =
     ''dependencies:'' @ render_entries (declared_dependencies pkg)
       @ '' devDependencies:''
       @ render_entries (case devDependencies pkg of None \<Rightarrow> [] | Some dev \<Rightarrow> dev)"

definition render_langgraph :: "LanggraphJson \<Rightarrow> string" where
  "render_langgraph doc = ''graphs:'' @ render_entries (case graphs doc of None \<Rightarrow> [] | Some g \<Rightarrow> g)"

definition render_compose :: "DockerComposeFile \<Rightarrow> string" where
  "render_compose doc =
     ''services:''
       @ render_entries (map (\<lambda>kv. (fst kv, to_String (snd kv)))
                           (case services doc of None \<Rightarrow> [] | Some s \<Rightarrow> s))"

definition sample_package :: PackageJson where
  "sample_package =
     \<lparr>dependencies = Some [(''pkg'', ''^1.2.0''), (''left'', ''~2.3.1'')],
      devDependencies = Some [(''vitest'', ''^1.0.0'')],
      package_rest = []\<rparr>"

definition sample_langgraph :: LanggraphJson where
  "sample_langgraph = \<lparr>graphs = Some [(''main'', ''original:graph'')], langgraph_rest = []\<rparr>"

definition sample_compose :: DockerComposeFile where
  "sample_compose =
     \<lparr>compose_version = Some ''3'',
      services = Some [(''web'', JObj [(''ports'', JArr [JStr ''8000:80''])])],
      compose_rest = []\<rparr>"

definition sample_platform :: platform where
  "sample_platform =
     \<lparr>JSON_parse_package = (\<lambda>text. Inr sample_package),
      JSON_stringify_package = render_package,
      JSON_parse_langgraph = (\<lambda>text. Inr sample_langgraph),
      JSON_stringify_langgraph = render_langgraph,
      yaml_parse = (\<lambda>text. Inr (Some sample_compose)),
      yaml_stringify = render_compose,
      localeCompare = ordinal_compare\<rparr>"

definition sample_files :: files where
  "sample_files =
     no_files(''package.json'' \<mapsto> ''(package)'',
              ''langgraph.json'' \<mapsto> ''(langgraph)'',
              ''docker-compose.yml'' \<mapsto> ''(compose)'')"














text \<open>The host ports a service definition claims, as the merger reads them.\<close>

definition hosts_of_ports :: "jsval list \<Rightarrow> string set" where
  "hosts_of_ports ps = {h. \<exists>p \<in> set ps. extractHostPort (to_String p) = Some h \<and> h \<noteq> []}"

definition claimed_hosts :: "jsval \<Rightarrow> string set" where
  "claimed_hosts svc =
     (case ports_of svc of Inr (Some (JArr ps)) \<Rightarrow> hosts_of_ports ps | _ \<Rightarrow> {})"

text \<open>The services of the worked examples.\<close>

definition web_service :: jsval where
  "web_service = JObj [(''ports'', JArr [JStr ''8000:80''])]"

definition api_on_ip :: jsval where
  "api_on_ip = JObj [(''ports'', JArr [JStr ''127.0.0.1:8000:80''])]"

definition api_on_8000 :: jsval where
  "api_on_8000 = JObj [(''ports'', JArr [JStr ''8000:8080''])]"



section \<open>The version comparator orders numerically\<close>













section \<open>Host port extraction\<close>

lemma split_on_not_Nil: "split_on c s \<noteq> []"
  by (induction s) (auto split: list.splits)

lemma split_on_first: "split_on c s ! 0 = takeWhile (\<lambda>x. x \<noteq> c) s"
  by (induction s) (auto split: list.splits simp: split_on_not_Nil)

lemma split_on_two: "2 \<le> length (split_on c s) \<longleftrightarrow> c \<in> set s"
proof (induction s)
  case Nil
  show ?case by simp
next
  case (Cons x xs)
  obtain p ps where sp: "split_on c xs = p # ps"
    using split_on_not_Nil[of c xs] by (cases "split_on c xs") auto
  show ?case
  proof (cases "x = c")
    case True
    then show ?thesis by (simp add: sp)
  next
    case False
    then show ?thesis using Cons sp by auto
  qed
qed

lemma extractHostPort_colon:
  "CHR '':'' \<in> set s \<Longrightarrow> extractHostPort s = Some (takeWhile (\<lambda>c. c \<noteq> CHR '':'') s)"
  by (simp add: extractHostPort_def Let_def split_on_two split_on_first)

lemma extractHostPort_no_colon:
  "CHR '':'' \<notin> set s \<Longrightarrow> extractHostPort s = None"
  by (simp add: extractHostPort_def Let_def split_on_two)

lemma extractHostPort_three_segments:
  assumes "CHR '':'' \<notin> set ip"
  shows "extractHostPort (ip @ CHR '':'' # hostPort @ CHR '':'' # containerPort) = Some ip"
proof -
  have "takeWhile (\<lambda>c. c \<noteq> CHR '':'') (ip @ CHR '':'' # hostPort @ CHR '':'' # containerPort) = ip"
    using assms by (induction ip) auto
  then show ?thesis
    by (simp add: extractHostPort_colon)
qed

lemma check_ports_colon_free:
  "list_all (\<lambda>p. CHR '':'' \<notin> set (to_String p)) ps \<Longrightarrow> check_ports name used ps = Inr used"
  by (induction ps) (simp_all add: extractHostPort_no_colon)

lemma claim_ports_colon_free:
  "list_all (\<lambda>p. CHR '':'' \<notin> set (to_String p)) ps \<Longrightarrow> claim_ports used ps = used"
  by (induction ps) (simp_all add: extractHostPort_no_colon)

text \<open>
  C9. \<open>extractHostPort\<close> returns the text before the first colon of a mapping that has a
  colon, and \<open>null\<close> for a mapping without one. Hence for \<open>IP:hostPort:containerPort\<close> the
  collision check of a service being added looks at the IP segment only (it throws, or
  claims, on \<open>IP\<close>, whatever \<open>hostPort\<close> is), and ports whose text has no colon are never
  checked and never claimed.
\<close>

theorem extractHostPort_text_before_first_colon:
  "(CHR '':'' \<in> set s \<longrightarrow> extractHostPort s = Some (takeWhile (\<lambda>c. c \<noteq> CHR '':'') s))
   \<and> (CHR '':'' \<notin> set s \<longrightarrow> extractHostPort s = None)
   \<and> (CHR '':'' \<notin> set ip \<longrightarrow>
        extractHostPort (ip @ CHR '':'' # hostPort @ CHR '':'' # containerPort) = Some ip
        \<and> check_ports name used [JStr (ip @ CHR '':'' # hostPort @ CHR '':'' # containerPort)]
            = (if ip \<noteq> [] \<and> ip \<in> used then Inl (Error (collision_message ip name))
               else if ip \<noteq> [] then Inr (insert ip used) else Inr used))
   \<and> (list_all (\<lambda>p. CHR '':'' \<notin> set (to_String p)) ps \<longrightarrow>
        check_ports name used ps = Inr used \<and> claim_ports used ps = used)"
proof (intro conjI impI)
  assume "CHR '':'' \<notin> set ip"
  then show "extractHostPort (ip @ CHR '':'' # hostPort @ CHR '':'' # containerPort) = Some ip"
    by (rule extractHostPort_three_segments)
next
  assume "CHR '':'' \<notin> set ip"
  then have e: "extractHostPort (ip @ CHR '':'' # hostPort @ CHR '':'' # containerPort) = Some ip"
    by (rule extractHostPort_three_segments)
  show "check_ports name used [JStr (ip @ CHR '':'' # hostPort @ CHR '':'' # containerPort)]
            = (if ip \<noteq> [] \<and> ip \<in> used then Inl (Error (collision_message ip name))
               else if ip \<noteq> [] then Inr (insert ip used) else Inr used)"
    by (simp add: e)
qed (simp_all add: extractHostPort_colon extractHostPort_no_colon
      check_ports_colon_free claim_ports_colon_free)

theorem extractHostPort_text_before_first_colon_witness:
  "CHR '':'' \<in> set ''8000:80'' \<and> extractHostPort ''8000:80'' = Some ''8000''
   \<and> CHR '':'' \<notin> set ''8000'' \<and> extractHostPort ''8000'' = None
   \<and> CHR '':'' \<notin> set ''127.0.0.1''
   \<and> extractHostPort ''127.0.0.1:8000:80'' = Some ''127.0.0.1''
   \<and> check_ports ''api'' {''8000''} [JStr ''127.0.0.1:8000:80''] = Inr {''127.0.0.1'', ''8000''}
   \<and> list_all (\<lambda>p. CHR '':'' \<notin> set (to_String p)) [JStr ''8000'', JNum 80]
   \<and> check_ports ''api'' {''8000''} [JStr ''8000'', JNum 80] = Inr {''8000''}"
proof -
  have n: "show_nat 80 = ''80''"
    by code_simp
  have c: "list_all (\<lambda>p. CHR '':'' \<notin> set (to_String p)) [JStr ''8000'', JNum 80]"
    by (simp add: n)
  have a: "extractHostPort ''8000:80'' = Some ''8000''"
    using extractHostPort_text_before_first_colon [where s = "''8000:80''"] by simp
  have b: "extractHostPort ''8000'' = None"
    using extractHostPort_text_before_first_colon [where s = "''8000''"] by simp
  have d: "extractHostPort ''127.0.0.1:8000:80'' = Some ''127.0.0.1''
           \<and> check_ports ''api'' {''8000''} [JStr ''127.0.0.1:8000:80''] = Inr {''127.0.0.1'', ''8000''}"
    using extractHostPort_text_before_first_colon
            [where ip = "''127.0.0.1''" and hostPort = "''8000''" and containerPort = "''80''"
               and name = "''api''" and used = "{''8000''}"]
    by simp
  have e: "check_ports ''api'' {''8000''} [JStr ''8000'', JNum 80] = Inr {''8000''}"
    using c extractHostPort_text_before_first_colon
            [where name = "''api''" and used = "{''8000''}" and ps = "[JStr ''8000'', JNum 80]"]
    by blast
  show ?thesis
    using a b c d e by simp
qed

section \<open>The environment file merger appends absent keys only\<close>

lemma eq_not_key_char: "\<not> is_key_char CHR ''=''"
  by (simp add: is_key_char_def is_alpha_def is_digit_def)

lemma env_line_key_identifier:
  assumes "is_identifier k"
  shows "env_line_key (k @ CHR ''='' # v) = Some k"
proof -
  from assms obtain c cs where k: "k = c # cs" and c: "is_key_start c" and cs: "\<forall>x\<in>set cs. is_key_char x"
    by (cases k) (auto simp: is_identifier_def list_all_iff)
  have d: "dropWhile is_key_char (cs @ CHR ''='' # v) = CHR ''='' # v"
    using cs eq_not_key_char by (simp add: dropWhile_append3)
  have t: "takeWhile is_key_char (cs @ CHR ''='' # v) = cs"
    using cs eq_not_key_char by (simp add: takeWhile_append2)
  show ?thesis
    unfolding env_line_key_def k using c by (simp add: d t)
qed

lemma existingVars_iff:
  "k \<in> existingVars content \<longleftrightarrow> (\<exists>line \<in> set (split_on (CHR 0x0A) content). env_line_key line = Some k)"
  by (auto simp: existingVars_def List.map_filter_def image_iff)

lemma terminate_line_prefix: "\<exists>rest. terminate_line content = content @ rest"
  by (simp add: terminate_line_def)

lemma mergeEnvAdditions_api_key:
  "mergeEnvAdditions ''.env.example'' [''API_KEY''] api_key_files = (Returned, api_key_files)"
proof -
  have c: "api_key_files ''.env.example'' = Some (''API_KEY=secret'' @ [CHR 0x0A])"
    by (simp add: api_key_files_def)
  have n: "filter (\<lambda>v. v \<notin> existingVars (''API_KEY=secret'' @ [CHR 0x0A])) [''API_KEY''] = []"
    by code_simp
  show ?thesis
    unfolding mergeEnvAdditions_def c Let_def option.case n by simp
qed


lemma mergeEnvAdditions_result:
  "mergeEnvAdditions p additions files =
     (if filter (\<lambda>v. v \<notin> existingVars (current_content files p)) additions = []
      then (Returned, files)
      else (Returned,
            files(p \<mapsto> terminate_line (current_content files p) @ added_header
                    @ concat (map (\<lambda>v. v @ ''='' @ [CHR 0x0A])
                        (filter (\<lambda>v. v \<notin> existingVars (current_content files p)) additions)))))"
  by (simp add: mergeEnvAdditions_def current_content_def Let_def writeFileSync_def)

text \<open>
  C6. The environment-file merger always returns normally and touches no other file. A
  line \<open>KEY=value\<close> makes \<open>KEY\<close> a defined key. When every addition is a defined key, the
  files are left as they were; otherwise the file becomes its old content (newline
  terminated), the header, and one \<open>KEY=\<close> line for each addition that is not defined, in
  the order given: the old content stays in front, unchanged, and no line is added for a
  defined key. Merging \<open>API_KEY\<close> into a file that defines \<open>API_KEY=secret\<close> changes nothing.
\<close>

theorem mergeEnvAdditions_appends_absent_keys_only:
  "fst (mergeEnvAdditions p additions files) = Returned
   \<and> (\<forall>q. q \<noteq> p \<longrightarrow> snd (mergeEnvAdditions p additions files) q = files q)
   \<and> (\<forall>k v. is_identifier k
          \<and> k @ CHR ''='' # v \<in> set (split_on (CHR 0x0A) (current_content files p))
          \<longrightarrow> k \<in> existingVars (current_content files p))
   \<and> (set additions \<subseteq> existingVars (current_content files p) \<longrightarrow>
        snd (mergeEnvAdditions p additions files) = files)
   \<and> (\<not> set additions \<subseteq> existingVars (current_content files p) \<longrightarrow>
        snd (mergeEnvAdditions p additions files) p =
          Some (terminate_line (current_content files p) @ added_header
                  @ concat (map (\<lambda>v. v @ ''='' @ [CHR 0x0A])
                      (filter (\<lambda>v. v \<notin> existingVars (current_content files p)) additions))))
   \<and> (\<exists>rest. terminate_line (current_content files p) = current_content files p @ rest)
   \<and> mergeEnvAdditions ''.env.example'' [''API_KEY''] api_key_files = (Returned, api_key_files)"
proof (intro conjI allI impI)
  show "fst (mergeEnvAdditions p additions files) = Returned"
    by (simp add: mergeEnvAdditions_result)
next
  fix q assume "q \<noteq> p"
  then show "snd (mergeEnvAdditions p additions files) q = files q"
    by (simp add: mergeEnvAdditions_result)
next
  fix k v
  assume "is_identifier k \<and> k @ CHR ''='' # v \<in> set (split_on (CHR 0x0A) (current_content files p))"
  then show "k \<in> existingVars (current_content files p)"
    using env_line_key_identifier[of k v] existingVars_iff by blast
next
  assume "set additions \<subseteq> existingVars (current_content files p)"
  then have "filter (\<lambda>v. v \<notin> existingVars (current_content files p)) additions = []"
    by (auto simp: filter_empty_conv)
  then show "snd (mergeEnvAdditions p additions files) = files"
    by (simp add: mergeEnvAdditions_result)
next
  assume "\<not> set additions \<subseteq> existingVars (current_content files p)"
  then have "filter (\<lambda>v. v \<notin> existingVars (current_content files p)) additions \<noteq> []"
    by (auto simp: filter_empty_conv)
  then show "snd (mergeEnvAdditions p additions files) p =
          Some (terminate_line (current_content files p) @ added_header
                  @ concat (map (\<lambda>v. v @ ''='' @ [CHR 0x0A])
                      (filter (\<lambda>v. v \<notin> existingVars (current_content files p)) additions)))"
    by (simp add: mergeEnvAdditions_result)
next
  show "\<exists>rest. terminate_line (current_content files p) = current_content files p @ rest"
    by (rule terminate_line_prefix)
next
  show "mergeEnvAdditions ''.env.example'' [''API_KEY''] api_key_files = (Returned, api_key_files)"
    by (rule mergeEnvAdditions_api_key)
qed

theorem mergeEnvAdditions_appends_absent_keys_only_witness:
  "is_identifier ''API_KEY''
   \<and> ''API_KEY'' @ CHR ''='' # ''secret''
        \<in> set (split_on (CHR 0x0A) (current_content api_key_files ''.env.example''))
   \<and> ''API_KEY'' \<in> existingVars (current_content api_key_files ''.env.example'')
   \<and> set [''API_KEY''] \<subseteq> existingVars (current_content api_key_files ''.env.example'')
   \<and> snd (mergeEnvAdditions ''.env.example'' [''API_KEY''] api_key_files) = api_key_files
   \<and> \<not> set [''API_KEY'', ''DEBUG''] \<subseteq> existingVars (current_content api_key_files ''.env.example'')
   \<and> snd (mergeEnvAdditions ''.env.example'' [''API_KEY'', ''DEBUG''] api_key_files) ''.env.example''
       = Some (''API_KEY=secret'' @ [CHR 0x0A] @ [CHR 0x0A] @ ''# Added by skill'' @ [CHR 0x0A]
               @ ''DEBUG='' @ [CHR 0x0A])
   \<and> ''other'' \<noteq> ''.env.example''
   \<and> snd (mergeEnvAdditions ''.env.example'' [''API_KEY'', ''DEBUG''] api_key_files) ''other''
       = api_key_files ''other''"
proof -
  have cc: "current_content api_key_files ''.env.example'' = ''API_KEY=secret'' @ [CHR 0x0A]"
    by (simp add: current_content_def api_key_files_def)
  have i: "is_identifier ''API_KEY''"
    by (simp add: is_identifier_def is_key_start_def is_key_char_def is_alpha_def)
  have l: "''API_KEY'' @ CHR ''='' # ''secret''
             \<in> set (split_on (CHR 0x0A) (current_content api_key_files ''.env.example''))"
    unfolding cc by simp
  have d: "''DEBUG'' \<notin> existingVars (''API_KEY=secret'' @ [CHR 0x0A])"
    by code_simp
  have t: "terminate_line (''API_KEY=secret'' @ [CHR 0x0A]) = ''API_KEY=secret'' @ [CHR 0x0A]"
    by (simp add: terminate_line_def endsWith_char_def)
  note w1 = mergeEnvAdditions_appends_absent_keys_only
              [where p = "''.env.example''" and additions = "[''API_KEY'']" and files = api_key_files]
  note w2 = mergeEnvAdditions_appends_absent_keys_only
              [where p = "''.env.example''" and additions = "[''API_KEY'', ''DEBUG'']" and files = api_key_files]
  note w1_keys = w1[THEN conjunct2, THEN conjunct2, THEN conjunct1, rule_format]
  note w1_same = w1[THEN conjunct2, THEN conjunct2, THEN conjunct2, THEN conjunct1, rule_format]
  note w2_frame = w2[THEN conjunct2, THEN conjunct1, rule_format]
  note w2_new = w2[THEN conjunct2, THEN conjunct2, THEN conjunct2, THEN conjunct2, THEN conjunct1, rule_format]
  have k: "''API_KEY'' \<in> existingVars (current_content api_key_files ''.env.example'')"
    by (rule w1_keys) (rule conjI[OF i l])
  have sub: "set [''API_KEY''] \<subseteq> existingVars (current_content api_key_files ''.env.example'')"
    using k by simp
  have s1: "snd (mergeEnvAdditions ''.env.example'' [''API_KEY''] api_key_files) = api_key_files"
    by (rule w1_same) (rule sub)
  have n2: "\<not> set [''API_KEY'', ''DEBUG''] \<subseteq> existingVars (current_content api_key_files ''.env.example'')"
    using d unfolding cc by simp
  have f2: "filter (\<lambda>v. v \<notin> existingVars (current_content api_key_files ''.env.example'')) [''API_KEY'', ''DEBUG'']
              = [''DEBUG'']"
    using k d unfolding cc by simp
  have s2: "snd (mergeEnvAdditions ''.env.example'' [''API_KEY'', ''DEBUG''] api_key_files) ''.env.example''
       = Some (''API_KEY=secret'' @ [CHR 0x0A] @ [CHR 0x0A] @ ''# Added by skill'' @ [CHR 0x0A]
               @ ''DEBUG='' @ [CHR 0x0A])"
    unfolding w2_new[OF n2] f2 unfolding cc t by (simp add: added_header_def)
  have o: "''other'' \<noteq> ''.env.example''" by simp
  have s3: "snd (mergeEnvAdditions ''.env.example'' [''API_KEY'', ''DEBUG''] api_key_files) ''other''
       = api_key_files ''other''"
    by (rule w2_frame) (rule o)
  show ?thesis
    by (intro conjI i l k sub s1 n2 s2 o s3)

qed

section \<open>Objects as entry lists\<close>

lemma map_of_set_entry: "map_of (set_entry k v xs) = (map_of xs)(k \<mapsto> v)"
  by (induction xs) (auto simp: fun_eq_iff)

lemma keys_set_entry: "fst ` set (set_entry k v xs) = insert k (fst ` set xs)"
  by (induction xs) auto

lemma distinct_set_entry:
  "distinct (map fst xs) \<Longrightarrow> distinct (map fst (set_entry k v xs))"
proof (induction xs)
  case Nil
  show ?case by simp
next
  case (Cons p ps)
  then show ?case
    using keys_set_entry[of k v ps] by (auto simp: image_iff)
qed

lemma mset_insert_sorted: "mset (insert_sorted cmp x ys) = add_mset x (mset ys)"
  by (induction ys) auto

lemma mset_sort_entries: "mset (sort_entries cmp xs) = mset xs"
  unfolding sort_entries_def by (induction xs) (auto simp: mset_insert_sorted)

lemma distinct_sort_entries:
  "distinct (map fst (sort_entries cmp xs)) \<longleftrightarrow> distinct (map fst xs)"
proof -
  have "mset (map fst (sort_entries cmp xs)) = mset (map fst xs)"
    using mset_sort_entries[of cmp xs] by (metis mset_map)
  then show ?thesis
    by (rule mset_eq_imp_distinct_iff)
qed

lemma map_of_sort_entries:
  assumes "distinct (map fst xs)"
  shows "map_of (sort_entries cmp xs) = map_of xs"
proof -
  have "set (sort_entries cmp xs) = set xs"
    using mset_sort_entries[of cmp xs] by (rule mset_eq_setD)
  moreover have "distinct (map fst (sort_entries cmp xs))"
    using assms by (simp add: distinct_sort_entries)
  ultimately show ?thesis
    using assms by (simp add: map_of_inject_set)
qed

section \<open>The loop over the additions\<close>

lemma existing_range_set_entry_other:
  "n \<noteq> k \<Longrightarrow> existing_range (set_entry k v deps) dev n = existing_range deps dev n"
  by (simp add: existing_range_def map_of_set_entry)

text \<open>One step of the loop, in terms of \<open>blocked\<close> and \<open>written_range\<close>.\<close>

lemma merge_dependency_entries_step:
  "merge_dependency_entries deps dev ((name, wanted) # rest) =
     (if blocked (existing_range deps dev name) wanted
      then Inl (Error (conflict_message name (the (existing_range deps dev name)) wanted))
      else merge_dependency_entries
             (set_entry name (written_range (existing_range deps dev name) wanted) deps) dev rest)"
  by (cases "existing_range deps dev name") (simp_all add: blocked_def written_range_def Let_def)


lemma merge_dependency_entries_success:
  assumes "merge_dependency_entries deps dev nd = Inr deps'" "distinct (map fst nd)"
  shows "(\<forall>n w. (n, w) \<in> set nd \<longrightarrow>
            \<not> blocked (existing_range deps dev n) w
            \<and> map_of deps' n = Some (written_range (existing_range deps dev n) w))
         \<and> (\<forall>n. n \<notin> fst ` set nd \<longrightarrow> map_of deps' n = map_of deps n)"
  using assms
proof (induction nd arbitrary: deps)
  case Nil
  then show ?case by simp
next
  case (Cons x nd)
  obtain name wanted where x: "x = (name, wanted)" by (cases x)
  let ?d = "set_entry name (written_range (existing_range deps dev name) wanted) deps"
  from Cons.prems(1) have nb: "\<not> blocked (existing_range deps dev name) wanted"
    unfolding x merge_dependency_entries_step by (auto split: if_splits)
  with Cons.prems(1) have run: "merge_dependency_entries ?d dev nd = Inr deps'"
    unfolding x merge_dependency_entries_step by simp
  from Cons.prems(2) have dist: "distinct (map fst nd)" and fresh: "name \<notin> fst ` set nd"
    unfolding x by auto
  note ih = Cons.IH[OF run dist]
  have here: "map_of deps' name = Some (written_range (existing_range deps dev name) wanted)"
    using ih fresh by (simp add: map_of_set_entry)
  have later: "\<not> blocked (existing_range deps dev n) w
            \<and> map_of deps' n = Some (written_range (existing_range deps dev n) w)"
    if "(n, w) \<in> set nd" for n w
  proof -
    from that fresh have "n \<noteq> name" by force
    then have eq: "existing_range ?d dev n = existing_range deps dev n"
      by (rule existing_range_set_entry_other)
    from ih that have "\<not> blocked (existing_range ?d dev n) w
            \<and> map_of deps' n = Some (written_range (existing_range ?d dev n) w)"
      by blast
    then show ?thesis unfolding eq .
  qed
  have others: "map_of deps' n = map_of deps n" if "n \<notin> fst ` set (x # nd)" for n
  proof -
    from that have "n \<noteq> name" "n \<notin> fst ` set nd" unfolding x by auto
    then show ?thesis using ih by (simp add: map_of_set_entry)
  qed
  show ?case
  proof (intro conjI allI impI)
    fix n w assume "(n, w) \<in> set (x # nd)"
    then consider "n = name" "w = wanted" | "(n, w) \<in> set nd" unfolding x by auto
    then show "\<not> blocked (existing_range deps dev n) w"
      using nb later by cases auto
  next
    fix n w assume "(n, w) \<in> set (x # nd)"
    then consider "n = name" "w = wanted" | "(n, w) \<in> set nd" unfolding x by auto
    then show "map_of deps' n = Some (written_range (existing_range deps dev n) w)"
      using here later by cases auto
  next
    fix n assume "n \<notin> fst ` set (x # nd)"
    then show "map_of deps' n = map_of deps n" by (rule others)
  qed
qed

lemma merge_dependency_entries_distinct:
  "merge_dependency_entries deps dev nd = Inr deps' \<Longrightarrow> distinct (map fst deps)
     \<Longrightarrow> distinct (map fst deps')"
proof (induction nd arbitrary: deps)
  case Nil
  then show ?case by simp
next
  case (Cons x nd)
  obtain name wanted where x: "x = (name, wanted)" by (cases x)
  let ?d = "set_entry name (written_range (existing_range deps dev name) wanted) deps"
  from Cons.prems(1) have "merge_dependency_entries ?d dev nd = Inr deps'"
    unfolding x merge_dependency_entries_step by (auto split: if_splits)
  moreover have "distinct (map fst ?d)"
    using Cons.prems(2) by (rule distinct_set_entry)
  ultimately show ?case by (rule Cons.IH)
qed




section \<open>Range compatibility on caret and tilde ranges\<close>









section \<open>The package manifest merger on a manifest that parses\<close>

lemma mergeNpmDependencies_parsed:
  assumes "files p = Some content" "JSON_parse_package P content = Inr pkg"
  shows "mergeNpmDependencies P p newDeps files =
           (case merge_dependency_entries (declared_dependencies pkg) (devDependencies pkg) newDeps of
              Inl e \<Rightarrow> (Threw e, files)
            | Inr merged \<Rightarrow>
                (Returned,
                 files(p \<mapsto> JSON_stringify_package P (written_package P pkg merged) @ [CHR 0x0A])))"
  using assms
  by (simp add: mergeNpmDependencies_def readFileSync_def declared_dependencies_def
      written_package_def writeFileSync_def Let_def split: sum.splits)






lemma sample_package_file:
  "sample_files ''package.json'' = Some ''(package)''"
  by (simp add: sample_files_def no_files_def)

lemma sample_package_parse:
  "JSON_parse_package sample_platform ''(package)'' = Inr sample_package"
  by (simp add: sample_platform_def)



lemma sample_package_left_range:
  "existing_range (declared_dependencies sample_package) (devDependencies sample_package) ''left''
     = Some ''~2.3.1''"
  by (simp add: existing_range_def declared_dependencies_def sample_package_def)


lemma devDependencies_written_package:
  "devDependencies (written_package P pkg merged)
     = map_option (sort_entries (localeCompare P)) (devDependencies pkg)"
  by (simp add: written_package_def)

lemma dependencies_written_package:
  "dependencies (written_package P pkg merged) = Some (sort_entries (localeCompare P) merged)"
  by (simp add: written_package_def)

text \<open>
  C10. On a manifest that parses, with distinct keys and distinct additions, whenever the
  merge returns: the \<open>devDependencies\<close> section written holds the same entries with the same
  values as before (it is only re-ordered, and stays absent when it was absent); and for
  an addition whose name is in \<open>devDependencies\<close> but not in \<open>dependencies\<close>, the range
  written under that name in \<open>dependencies\<close> is the resolved range (the wanted one when the
  two are equal or the old one is empty), while \<open>devDependencies\<close> still maps the name to
  its old range, so the name is then in both sections.
\<close>

theorem mergeNpmDependencies_keeps_devDependencies:
  assumes existing_file: "files p = Some content"
      and parse: "JSON_parse_package P content = Inr pkg"
      and wf: "well_formed_package pkg"
      and keys: "distinct_keys newDeps"
      and run: "mergeNpmDependencies P p newDeps files = (Returned, files')"
  shows "\<exists>merged.
           files' = files(p \<mapsto> JSON_stringify_package P (written_package P pkg merged) @ [CHR 0x0A])
           \<and> map_option map_of (devDependencies (written_package P pkg merged))
               = map_option map_of (devDependencies pkg)
           \<and> map_option mset (devDependencies (written_package P pkg merged))
               = map_option mset (devDependencies pkg)
           \<and> (\<forall>name wanted dev e.
                 (name, wanted) \<in> set newDeps \<and> map_of (declared_dependencies pkg) name = None
                 \<and> devDependencies pkg = Some dev \<and> map_of dev name = Some e
                 \<longrightarrow> map_of (the (dependencies (written_package P pkg merged))) name
                       = Some (written_range (Some e) wanted)
                     \<and> (\<exists>dev'. devDependencies (written_package P pkg merged) = Some dev'
                               \<and> map_of dev' name = Some e))"
proof -
  let ?deps = "declared_dependencies pkg"
  let ?dev = "devDependencies pkg"
  let ?cmp = "localeCompare P"
  note eq = mergeNpmDependencies_parsed[where files = files and p = p and newDeps = newDeps,
              OF existing_file parse]
  from run obtain merged where
    m: "merge_dependency_entries ?deps ?dev newDeps = Inr merged"
    and f: "files' = files(p \<mapsto> JSON_stringify_package P (written_package P pkg merged) @ [CHR 0x0A])"
    unfolding eq by (cases "merge_dependency_entries ?deps ?dev newDeps") auto
  have dk: "distinct (map fst ?deps)" "distinct (map fst newDeps)"
    using wf keys by (simp_all add: well_formed_package_def distinct_keys_def)
  have dd: "distinct (map fst dev)" if "?dev = Some dev" for dev
    using wf that by (simp add: well_formed_package_def distinct_keys_def)
  have same_map: "map_option map_of (devDependencies (written_package P pkg merged))
               = map_option map_of ?dev"
  proof (cases ?dev)
    case None
    then show ?thesis by (simp add: devDependencies_written_package)
  next
    case (Some dev)
    then show ?thesis
      using dd[OF Some] by (simp add: devDependencies_written_package map_of_sort_entries)
  qed
  have same_mset: "map_option mset (devDependencies (written_package P pkg merged))
               = map_option mset ?dev"
    by (cases ?dev) (simp_all add: devDependencies_written_package mset_sort_entries)
  have sorted_deps: "map_of (sort_entries ?cmp merged) = map_of merged"
    using merge_dependency_entries_distinct[OF m dk(1)] by (rule map_of_sort_entries)
  have both: "map_of (the (dependencies (written_package P pkg merged))) name
                       = Some (written_range (Some e) wanted)
                     \<and> (\<exists>dev'. devDependencies (written_package P pkg merged) = Some dev'
                               \<and> map_of dev' name = Some e)"
    if h: "(name, wanted) \<in> set newDeps \<and> map_of ?deps name = None
           \<and> ?dev = Some dev \<and> map_of dev name = Some e"
    for name wanted dev e
  proof -
    from h have found: "existing_range ?deps ?dev name = Some e"
      by (simp add: existing_range_def)
    from h have "(name, wanted) \<in> set newDeps" by simp
    with merge_dependency_entries_success[OF m dk(2)]
    have "map_of merged name = Some (written_range (existing_range ?deps ?dev name) wanted)"
      by blast
    then have a: "map_of (the (dependencies (written_package P pkg merged))) name
                       = Some (written_range (Some e) wanted)"
      unfolding found by (simp add: dependencies_written_package sorted_deps)
    from h have d: "?dev = Some dev" and e: "map_of dev name = Some e" by simp_all
    have "devDependencies (written_package P pkg merged) = Some (sort_entries ?cmp dev)
            \<and> map_of (sort_entries ?cmp dev) name = Some e"
      using d e dd[OF d] by (simp add: devDependencies_written_package map_of_sort_entries)
    then show ?thesis using a by blast
  qed
  show ?thesis
    using f same_map same_mset both by blast
qed

lemma sample_package_well_formed: "well_formed_package sample_package"
  by (simp add: well_formed_package_def distinct_keys_def declared_dependencies_def sample_package_def)

theorem mergeNpmDependencies_keeps_devDependencies_witness:
  "sample_files ''package.json'' = Some ''(package)''
   \<and> JSON_parse_package sample_platform ''(package)'' = Inr sample_package
   \<and> well_formed_package sample_package
   \<and> distinct_keys [(''vitest'', ''^1.4.0'')]
   \<and> fst (mergeNpmDependencies sample_platform ''package.json'' [(''vitest'', ''^1.4.0'')] sample_files)
       = Returned
   \<and> (''vitest'', ''^1.4.0'') \<in> set [(''vitest'', ''^1.4.0'')]
   \<and> map_of (declared_dependencies sample_package) ''vitest'' = None
   \<and> devDependencies sample_package = Some [(''vitest'', ''^1.0.0'')]
   \<and> map_of [(''vitest'', ''^1.0.0'')] ''vitest'' = Some ''^1.0.0''
   \<and> (\<exists>merged.
         snd (mergeNpmDependencies sample_platform ''package.json'' [(''vitest'', ''^1.4.0'')] sample_files)
           = sample_files(''package.json'' \<mapsto>
               JSON_stringify_package sample_platform
                 (written_package sample_platform sample_package merged) @ [CHR 0x0A])
         \<and> map_of (the (dependencies (written_package sample_platform sample_package merged))) ''vitest''
             = Some ''^1.4.0''
         \<and> (\<exists>dev'. devDependencies (written_package sample_platform sample_package merged) = Some dev'
                   \<and> map_of dev' ''vitest'' = Some ''^1.0.0''))"
proof -
  have k: "distinct_keys [(''vitest'', ''^1.4.0'')]"
    by (simp add: distinct_keys_def)
  have loop: "merge_dependency_entries (declared_dependencies sample_package)
                (devDependencies sample_package) [(''vitest'', ''^1.4.0'')]
              = Inr [(''pkg'', ''^1.2.0''), (''left'', ''~2.3.1''), (''vitest'', ''^1.4.0'')]"
    by code_simp
  have r: "fst (mergeNpmDependencies sample_platform ''package.json'' [(''vitest'', ''^1.4.0'')] sample_files)
       = Returned"
    unfolding mergeNpmDependencies_parsed[where files = sample_files and p = "''package.json''",
                OF sample_package_file sample_package_parse] loop
    by simp
  then have run: "mergeNpmDependencies sample_platform ''package.json'' [(''vitest'', ''^1.4.0'')] sample_files
        = (Returned,
           snd (mergeNpmDependencies sample_platform ''package.json'' [(''vitest'', ''^1.4.0'')] sample_files))"
    by (metis prod.collapse)
  have m: "(''vitest'', ''^1.4.0'') \<in> set [(''vitest'', ''^1.4.0'')]" by simp
  have a: "map_of (declared_dependencies sample_package) ''vitest'' = None"
    by (simp add: declared_dependencies_def sample_package_def)
  have d: "devDependencies sample_package = Some [(''vitest'', ''^1.0.0'')]"
    by (simp add: sample_package_def)
  have e: "map_of [(''vitest'', ''^1.0.0'')] ''vitest'' = Some ''^1.0.0''" by simp
  have w: "written_range (Some ''^1.0.0'') ''^1.4.0'' = ''^1.4.0''" by code_simp
  from mergeNpmDependencies_keeps_devDependencies
         [where files = sample_files and p = "''package.json''",
          OF sample_package_file sample_package_parse sample_package_well_formed k run]
  obtain merged where
    f: "snd (mergeNpmDependencies sample_platform ''package.json'' [(''vitest'', ''^1.4.0'')] sample_files)
           = sample_files(''package.json'' \<mapsto>
               JSON_stringify_package sample_platform
                 (written_package sample_platform sample_package merged) @ [CHR 0x0A])"
    and b: "\<forall>name wanted dev e.
                 (name, wanted) \<in> set [(''vitest'', ''^1.4.0'')]
                 \<and> map_of (declared_dependencies sample_package) name = None
                 \<and> devDependencies sample_package = Some dev \<and> map_of dev name = Some e
                 \<longrightarrow> map_of (the (dependencies (written_package sample_platform sample_package merged))) name
                       = Some (written_range (Some e) wanted)
                     \<and> (\<exists>dev'. devDependencies (written_package sample_platform sample_package merged) = Some dev'
                               \<and> map_of dev' name = Some e)"
    by blast
  have "map_of (the (dependencies (written_package sample_platform sample_package merged))) ''vitest''
             = Some (written_range (Some ''^1.0.0'') ''^1.4.0'')
         \<and> (\<exists>dev'. devDependencies (written_package sample_platform sample_package merged) = Some dev'
                   \<and> map_of dev' ''vitest'' = Some ''^1.0.0'')"
    using b[rule_format, OF conjI[OF m conjI[OF a conjI[OF d e]]]] .
  then have v: "\<exists>merged.
         snd (mergeNpmDependencies sample_platform ''package.json'' [(''vitest'', ''^1.4.0'')] sample_files)
           = sample_files(''package.json'' \<mapsto>
               JSON_stringify_package sample_platform
                 (written_package sample_platform sample_package merged) @ [CHR 0x0A])
         \<and> map_of (the (dependencies (written_package sample_platform sample_package merged))) ''vitest''
             = Some ''^1.4.0''
         \<and> (\<exists>dev'. devDependencies (written_package sample_platform sample_package merged) = Some dev'
                   \<and> map_of dev' ''vitest'' = Some ''^1.0.0'')"
    unfolding w using f by blast
  show ?thesis
    by (intro conjI sample_package_file sample_package_parse sample_package_well_formed k r m a d e v)
qed

section \<open>What the mergers do to the files\<close>










section \<open>The Python mergers resolve silently\<close>











lemma mergePyprojectDependencies_throws_only_ENOENT:
  "fst (mergePyprojectDependencies P p newDeps files) = Threw e \<Longrightarrow> e = ENOENT p \<and> files p = None"
  by (cases "files p")
     (simp_all add: mergePyprojectDependencies_def readFileSync_def Let_def)







section \<open>The migration runner\<close>















section \<open>The comparator of the specification meets the contract\<close>
















section \<open>The service manifest merger\<close>

lemma mergeDockerComposeServices_parsed:
  assumes "files p = Some content" "yaml_parse P content = Inr (Some doc)"
  shows "mergeDockerComposeServices P p newServices files =
           (case merge_services (case services doc of None \<Rightarrow> [] | Some s \<Rightarrow> s) newServices of
              Inl e \<Rightarrow> (Threw e, files)
            | Inr merged \<Rightarrow>
                (Returned, files(p \<mapsto> yaml_stringify P (doc\<lparr>services := Some merged\<rparr>))))"
  using assms
  by (simp add: mergeDockerComposeServices_def load_compose_def writeFileSync_def
      cong: sum.case_cong)

lemma claim_ports_hosts: "claim_ports used ps = used \<union> hosts_of_ports ps"
proof (induction ps arbitrary: used)
  case Nil
  show ?case by (simp add: hosts_of_ports_def)
next
  case (Cons p ps)
  have h: "hosts_of_ports (p # ps)
             = (case extractHostPort (to_String p) of
                  None \<Rightarrow> {} | Some h \<Rightarrow> if h \<noteq> [] then {h} else {}) \<union> hosts_of_ports ps"
    by (auto simp: hosts_of_ports_def split: option.splits)
  show ?case
    unfolding h by (simp add: Cons.IH split: option.splits)
qed

lemma collect_used_ports_hosts:
  "collect_used_ports used svcs = Inr u \<Longrightarrow> u = used \<union> (\<Union>svc \<in> snd ` set svcs. claimed_hosts svc)"
proof (induction svcs arbitrary: used)
  case Nil
  then show ?case by simp
next
  case (Cons s svcs)
  obtain name svc where s: "s = (name, svc)" by (cases s)
  show ?case
  proof (cases "ports_of svc")
    case (Inl e)
    with Cons.prems show ?thesis by (simp add: s)
  next
    case (Inr ports)
    show ?thesis
    proof (cases "\<exists>ps. ports = Some (JArr ps)")
      case True
      then obtain ps where ps: "ports = Some (JArr ps)" by blast
      from Cons.prems have "collect_used_ports (claim_ports used ps) svcs = Inr u"
        by (simp add: s Inr ps)
      from Cons.IH[OF this] show ?thesis
        by (auto simp: s claimed_hosts_def Inr ps claim_ports_hosts)
    next
      case False
      with Cons.prems have "collect_used_ports used svcs = Inr u"
        by (auto simp: s Inr split: option.splits jsval.splits)
      from Cons.IH[OF this] False show ?thesis
        by (auto simp: s claimed_hosts_def Inr split: option.splits jsval.splits)
    qed
  qed
qed

lemma check_ports_collision:
  assumes "p \<in> set ps" "extractHostPort (to_String p) = Some h" "h \<noteq> []" "h \<in> used"
  shows "\<exists>h'. check_ports name used ps = Inl (Error (collision_message h' name))"
  using assms
proof (induction ps arbitrary: used)
  case Nil
  then show ?case by simp
next
  case (Cons q qs)
  show ?case
  proof (cases "extractHostPort (to_String q)")
    case None
    with Cons.prems have "p \<in> set qs" by auto
    then show ?thesis
      using Cons.IH[OF _ Cons.prems(2,3,4)] None by simp
  next
    case (Some g)
    show ?thesis
    proof (cases "g \<noteq> [] \<and> g \<in> used")
      case True
      then show ?thesis by (auto simp: Some)
    next
      case False
      then have "p \<noteq> q" using Cons.prems(2,3,4) Some by auto
      then have m: "p \<in> set qs" using Cons.prems(1) by simp
      have "\<exists>h'. check_ports name (insert g used) qs = Inl (Error (collision_message h' name))"
        using Cons.IH[OF m Cons.prems(2,3)] Cons.prems(4) by simp
      moreover have "\<exists>h'. check_ports name used qs = Inl (Error (collision_message h' name))"
        using Cons.IH[OF m Cons.prems(2,3,4)] .
      ultimately show ?thesis using False by (auto simp: Some)
    qed
  qed
qed

text \<open>
  What the collision check does catch: when the first service being added (its name not
  held by a truthy entry) lists a port whose text before the first colon is a host
  claimed by an existing service, the merger throws a port collision error for that
  service and writes nothing.
\<close>

lemma mergeDockerComposeServices_collision:
  assumes existing_file: "files path = Some content" and parse: "yaml_parse P content = Inr (Some doc)"
      and existing: "services doc = Some existing"
      and holder: "(holder, svc) \<in> set existing" "h \<in> claimed_hosts svc"
      and listed: "\<forall>s \<in> snd ` set existing. s \<noteq> JNull"
      and new: "\<not> has_truthy existing name"
      and ports: "ports_of definition = Inr (Some (JArr ps))"
      and port: "p \<in> set ps" "extractHostPort (to_String p) = Some h" "h \<noteq> []"
  shows "\<exists>h'. mergeDockerComposeServices P path ((name, definition) # rest) files
                 = (Threw (Error (collision_message h' name)), files)"
proof -
  have ok: "\<exists>u. collect_used_ports used svcs = Inr u" if "\<forall>s \<in> snd ` set svcs. s \<noteq> JNull"
    for used svcs
    using that
  proof (induction svcs arbitrary: used)
    case Nil
    show ?case by simp
  next
    case (Cons s svcs)
    obtain n v where s: "s = (n, v)" by (cases s)
    from Cons.prems have "v \<noteq> JNull" and rest: "\<forall>s \<in> snd ` set svcs. s \<noteq> JNull"
      by (auto simp: s)
    then obtain ports where "ports_of v = Inr ports" by (cases v) auto
    then show ?case
      using Cons.IH[OF rest] by (auto simp: s split: option.splits jsval.splits)
  qed
  from ok[OF listed] obtain u where u: "collect_used_ports {} existing = Inr u" by blast
  have "h \<in> u"
    using collect_used_ports_hosts[OF u] holder by force
  from check_ports_collision[OF port this] obtain h' where
    "check_ports name u ps = Inl (Error (collision_message h' name))" by blast
  then have "merge_services existing ((name, definition) # rest)
               = Inl (Error (collision_message h' name))"
    using new by (simp add: merge_services_def u ports)
  then have "mergeDockerComposeServices P path ((name, definition) # rest) files
               = (Threw (Error (collision_message h' name)), files)"
    unfolding mergeDockerComposeServices_parsed[where files = files and p = path, OF existing_file parse]
    by (simp add: existing)
  then show ?thesis by blast
qed


lemma sample_compose_file: "sample_files ''docker-compose.yml'' = Some ''(compose)''"
  by (simp add: sample_files_def no_files_def)

lemma sample_compose_parse: "yaml_parse sample_platform ''(compose)'' = Inr (Some sample_compose)"
  by (simp add: sample_platform_def)

lemma sample_compose_services: "services sample_compose = Some [(''web'', web_service)]"
  by (simp add: sample_compose_def web_service_def)

lemma merge_services_ip_segment:
  "merge_services [(''web'', web_service)] [(''api'', api_on_ip)]
     = Inr [(''web'', web_service), (''api'', api_on_ip)]"
  by code_simp

lemma merge_services_same_host:
  "merge_services [(''web'', web_service)] [(''api'', api_on_8000)]
     = Inl (Error (collision_message ''8000'' ''api''))"
  by code_simp

text \<open>
  C4, where the code misses it. An existing service \<open>web\<close> publishes \<open>8000:80\<close>. Adding \<open>api\<close>
  with \<open>127.0.0.1:8000:80\<close>, which declares host port 8000 again, returns and writes a
  manifest with both services: the check compared \<open>127.0.0.1\<close> with \<open>8000\<close>. Adding \<open>api\<close>
  with \<open>8000:8080\<close> throws the port collision error and leaves the files as they were.
\<close>

theorem mergeDockerComposeServices_misses_ip_bound_port:
  "merge_services [(''web'', web_service)] [(''api'', api_on_ip)]
     = Inr [(''web'', web_service), (''api'', api_on_ip)]
   \<and> mergeDockerComposeServices sample_platform ''docker-compose.yml'' [(''api'', api_on_ip)] sample_files
       = (Returned,
          sample_files(''docker-compose.yml'' \<mapsto>
            yaml_stringify sample_platform
              (sample_compose\<lparr>services := Some [(''web'', web_service), (''api'', api_on_ip)]\<rparr>)))
   \<and> mergeDockerComposeServices sample_platform ''docker-compose.yml'' [(''api'', api_on_8000)] sample_files
       = (Threw (Error (collision_message ''8000'' ''api'')), sample_files)"
proof (intro conjI)
  note eq = mergeDockerComposeServices_parsed
              [where files = sample_files and p = "''docker-compose.yml''",
               OF sample_compose_file sample_compose_parse]
  show "merge_services [(''web'', web_service)] [(''api'', api_on_ip)]
     = Inr [(''web'', web_service), (''api'', api_on_ip)]"
    by (rule merge_services_ip_segment)
  show "mergeDockerComposeServices sample_platform ''docker-compose.yml'' [(''api'', api_on_ip)] sample_files
       = (Returned,
          sample_files(''docker-compose.yml'' \<mapsto>
            yaml_stringify sample_platform
              (sample_compose\<lparr>services := Some [(''web'', web_service), (''api'', api_on_ip)]\<rparr>)))"
    unfolding eq sample_compose_services option.case merge_services_ip_segment by simp
  show "mergeDockerComposeServices sample_platform ''docker-compose.yml'' [(''api'', api_on_8000)] sample_files
       = (Threw (Error (collision_message ''8000'' ''api'')), sample_files)"
    unfolding eq sample_compose_services option.case merge_services_same_host by simp
qed

section \<open>Entries that already exist\<close>













end
